theory Spec2Isabelle
  imports
    Complex_Main
    "HOL-Library.Word"
    "HOL-Library.Sublist"
    "HOL-Library.Char_ord"
    "HOL-Library.List_Lexorder"
begin

section \<open>Common ground of the notebooks\<close>

text \<open>
  The notebooks are scripts around a hosted chat-completion endpoint. Whatever the
  endpoint, the file system, the HTTP client, the image library or the JSON parser do is
  outside the repository; each is a parameter of the model. A Python exception is a value:
  its class name and the text that \<open>str(e)\<close> gives. Every function that can raise returns
  \<open>exn + 'a\<close>, with \<open>Inl\<close> for the exception that propagates.
\<close>

datatype exn = Exception (exn_class: string) (exn_str: string)

type_synonym byte = "8 word"

subsection \<open>The standard base64 alphabet (\<open>base64.b64encode\<close>, \<open>base64.b64decode\<close>)\<close>

text \<open>
  Both \<open>encode_image\<close> functions end in \<open>base64.b64encode(...).decode('utf-8')\<close>. The
  encoder is the one of RFC 4648: three bytes become four characters of the alphabet, and a
  last group of one or two bytes is padded with \<open>=\<close>. The output is ASCII, so decoding it
  as UTF-8 changes nothing. \<open>b64decode\<close> is the strict inverse: groups of four
  characters, padding only in the last group, \<open>None\<close> for anything else.
\<close>

definition b64_alphabet :: string where
  "b64_alphabet = ''ABCDEFGHIJKLMNOPQRSTUVWXYZabcdefghijklmnopqrstuvwxyz0123456789+/''"

definition b64_char :: "nat \<Rightarrow> char" where
  "b64_char i = b64_alphabet ! (i mod 64)"

fun b64encode :: "byte list \<Rightarrow> string" where
  "b64encode [] = []"
| "b64encode [a] =
     (let n = unat a * 65536
      in [b64_char (n div 262144), b64_char (n div 4096), CHR ''='', CHR ''=''])"
| "b64encode [a, b] =
     (let n = unat a * 65536 + unat b * 256
      in [b64_char (n div 262144), b64_char (n div 4096), b64_char (n div 64), CHR ''=''])"
| "b64encode (a # b # c # bs) =
     (let n = unat a * 65536 + unat b * 256 + unat c
      in [b64_char (n div 262144), b64_char (n div 4096), b64_char (n div 64), b64_char n]
         @ b64encode bs)"

fun index_of :: "char \<Rightarrow> string \<Rightarrow> nat option" where
  "index_of c [] = None"
| "index_of c (x # xs) = (if c = x then Some 0 else map_option Suc (index_of c xs))"

definition b64_index :: "char \<Rightarrow> nat option" where
  "b64_index c = index_of c b64_alphabet"

fun b64decode :: "string \<Rightarrow> byte list option" where
  "b64decode [] = Some []"
| "b64decode (c0 # c1 # c2 # c3 # cs) =
     (if cs = [] \<and> c3 = CHR ''='' then
        (if c2 = CHR ''='' then
           (case (b64_index c0, b64_index c1) of
              (Some i0, Some i1) \<Rightarrow>
                (let n = i0 * 262144 + i1 * 4096 in Some [word_of_nat (n div 65536)])
            | _ \<Rightarrow> None)
         else
           (case (b64_index c0, b64_index c1, b64_index c2) of
              (Some i0, Some i1, Some i2) \<Rightarrow>
                (let n = i0 * 262144 + i1 * 4096 + i2 * 64
                 in Some [word_of_nat (n div 65536), word_of_nat (n div 256)])
            | _ \<Rightarrow> None))
      else
        (case (b64_index c0, b64_index c1, b64_index c2, b64_index c3) of
           (Some i0, Some i1, Some i2, Some i3) \<Rightarrow>
             (let n = i0 * 262144 + i1 * 4096 + i2 * 64 + i3
              in map_option
                   (\<lambda>bs. word_of_nat (n div 65536) # word_of_nat (n div 256) # word_of_nat n # bs)
                   (b64decode cs))
         | _ \<Rightarrow> None))"
| "b64decode _ = None"

text \<open>
  The data URI both notebooks send: \<open>f"data:image/jpeg;base64,{base64_image}"\<close>. Its
  payload is what follows the first comma.
\<close>

definition data_uri :: "string \<Rightarrow> string" where
  "data_uri base64_image = ''data:image/jpeg;base64,'' @ base64_image"

definition data_uri_payload :: "string \<Rightarrow> string" where
  "data_uri_payload uri = drop 1 (dropWhile (\<lambda>c. c \<noteq> CHR '','') uri)"

subsection \<open>The chat-completion endpoint\<close>

text \<open>
  A request is what \<open>client.chat.completions.create\<close> is given: the client (the API key
  it was built with), the role-tagged messages, the model identifier and, in JSON mode, the
  response format. The content of a message is a plain string or a list of typed parts.
\<close>

datatype part = Text string | Image_url string

datatype content = Str string | Parts "part list"

record message =
  role :: string
  content :: content

record completion_request =
  client_key :: string
  chat_messages :: "message list"
  model :: string
  response_format :: "string option"

text \<open>
  The endpoint is not a function of the request alone: a language model may answer the
  same request differently each time. It is a function of the request and of the number of
  requests made before it, which covers every behaviour of a single run. It returns what
  \<open>chat_completion.choices[0].message.content\<close> evaluates to, or the exception raised on
  the way. \<open>create\<close> performs one call and records it in the log of requests.
\<close>

type_synonym endpoint = "nat \<Rightarrow> completion_request \<Rightarrow> exn + string"

type_synonym call_log = "completion_request list"

definition create :: "endpoint \<Rightarrow> completion_request \<Rightarrow> call_log \<Rightarrow> (exn + string) \<times> call_log" where
  "create api req reqs = (api (length reqs) req, reqs @ [req])"

section \<open>Notebook: image moderation (\<open>tutorials/image_moderation.ipynb\<close>)\<close>

text \<open>
  The libraries the notebook calls: the endpoint, \<open>image.save(buffered, format="JPEG")\<close>
  of the image library (the bytes written to the buffer), \<open>requests.get(url)\<close> (the bytes
  of \<open>response.content\<close>) and \<open>Image.open\<close>. \<open>'img\<close> is the type of decoded images.
\<close>

record 'img services =
  groq :: endpoint
  save_jpeg :: "'img \<Rightarrow> exn + byte list"
  requests_get :: "string \<Rightarrow> exn + byte list"
  image_open :: "byte list \<Rightarrow> exn + 'img"

definition encode_image_jpeg :: "'img services \<Rightarrow> 'img \<Rightarrow> exn + string" where
  "encode_image_jpeg sv pil_image =
     (case save_jpeg sv pil_image of
        Inl e \<Rightarrow> Inl e
      | Inr buffered \<Rightarrow> Inr (b64encode buffered))"

text \<open>
  \<open>analyze_image(image, prompt, api_key, is_url=False)\<close> is called in two shapes only: with
  an uploaded image and \<open>is_url\<close> false, and with a URL string and \<open>is_url\<close> true. The
  two shapes are the two constructors of the argument.
\<close>

datatype 'img image_arg = Upload 'img | Url string

definition analyze_request :: "string \<Rightarrow> string \<Rightarrow> string \<Rightarrow> completion_request" where
  "analyze_request image_url prompt api_key =
     \<lparr>client_key = api_key,
      chat_messages = [\<lparr>role = ''user'', content = Parts [Text prompt, Image_url image_url]\<rparr>],
      model = ''llava-v1.5-7b-4096-preview'',
      response_format = None\<rparr>"

definition analyze_image ::
  "'img services \<Rightarrow> 'img image_arg \<Rightarrow> string \<Rightarrow> string \<Rightarrow> call_log \<Rightarrow> (exn + string) \<times> call_log" where
  "analyze_image sv image_arg prompt api_key reqs =
     (case (case image_arg of
              Url u \<Rightarrow> Inr u
            | Upload img \<Rightarrow>
                (case encode_image_jpeg sv img of
                   Inl e \<Rightarrow> Inl e
                 | Inr base64_image \<Rightarrow> Inr (data_uri base64_image))) of
        Inl e \<Rightarrow> (Inl e, reqs)
      | Inr image_url \<Rightarrow>
          (case create (groq sv) (analyze_request image_url prompt api_key) reqs of
             (Inr c, reqs') \<Rightarrow> (Inr c, reqs')
           | (Inl e, reqs') \<Rightarrow> (Inr (''Error: '' @ exn_str e), reqs')))"

definition safety_request :: "string \<Rightarrow> string \<Rightarrow> completion_request" where
  "safety_request image_description api_key =
     \<lparr>client_key = api_key,
      chat_messages =
        [\<lparr>role = ''system'',
          content = Str ''You are a content safety classifier. Analyze the given text and determine if it contains any unsafe or inappropriate content.''\<rparr>,
         \<lparr>role = ''user'',
          content = Str (''Please analyze this image description for any unsafe or inappropriate content: ''
                         @ image_description)\<rparr>],
      model = ''llama-guard-3-8b'',
      response_format = None\<rparr>"

definition check_content_safety ::
  "'img services \<Rightarrow> string \<Rightarrow> string \<Rightarrow> call_log \<Rightarrow> string \<times> call_log" where
  "check_content_safety sv image_description api_key reqs =
     (case create (groq sv) (safety_request image_description api_key) reqs of
        (Inr c, reqs') \<Rightarrow> (c, reqs')
      | (Inl e, reqs') \<Rightarrow> (''Error: '' @ exn_str e, reqs'))"

text \<open>
  Both wrappers end alike: the content of the reply or, when the call raised, the text
  \<open>Error: \<close> followed by \<open>str(e)\<close>. \<open>content_or_error\<close> names that string in the
  statements about \<open>process_image\<close>.
\<close>

definition content_or_error :: "exn + string \<Rightarrow> string" where
  "content_or_error r = (case r of Inr c \<Rightarrow> c | Inl e \<Rightarrow> ''Error: '' @ exn_str e)"

text \<open>
  \<open>process_image\<close>: the uploaded image is \<open>None\<close> or an image, the URL is the text of
  the URL box (empty when nothing was typed). The tuple it returns is evaluated from left
  to right: the analysis that is displayed, then the analysis whose text is checked, then
  the check. The URL branch runs inside \<open>try\<close> with a bare \<open>except\<close>.
\<close>

definition invalid_url_message :: string where
  "invalid_url_message = ''Invalid image URL. Please provide a direct link to an image.''"

definition process_image ::
  "'img services \<Rightarrow> 'img option \<Rightarrow> string \<Rightarrow> string \<Rightarrow> string \<Rightarrow> call_log
     \<Rightarrow> (exn + string \<times> string) \<times> call_log" where
  "process_image sv uploaded url prompt api_key reqs =
     (case uploaded of
        Some img \<Rightarrow>
          (case analyze_image sv (Upload img) prompt api_key reqs of
             (Inl e, reqs1) \<Rightarrow> (Inl e, reqs1)
           | (Inr shown, reqs1) \<Rightarrow>
               (case analyze_image sv (Upload img) prompt api_key reqs1 of
                  (Inl e, reqs2) \<Rightarrow> (Inl e, reqs2)
                | (Inr description, reqs2) \<Rightarrow>
                    (case check_content_safety sv description api_key reqs2 of
                       (safety, reqs3) \<Rightarrow> (Inr (shown, safety), reqs3))))
      | None \<Rightarrow>
          if url \<noteq> [] then
            (case requests_get sv url of
               Inl e \<Rightarrow> (Inr (invalid_url_message, []), reqs)
             | Inr response_content \<Rightarrow>
                 (case image_open sv response_content of
                    Inl e \<Rightarrow> (Inr (invalid_url_message, []), reqs)
                  | Inr opened \<Rightarrow>
                      (case analyze_image sv (Url url) prompt api_key reqs of
                         (Inl e, reqs1) \<Rightarrow> (Inr (invalid_url_message, []), reqs1)
                       | (Inr shown, reqs1) \<Rightarrow>
                           (case analyze_image sv (Url url) prompt api_key reqs1 of
                              (Inl e, reqs2) \<Rightarrow> (Inr (invalid_url_message, []), reqs2)
                            | (Inr description, reqs2) \<Rightarrow>
                                (case check_content_safety sv description api_key reqs2 of
                                   (safety, reqs3) \<Rightarrow> (Inr (shown, safety), reqs3))))))
          else (Inr (''Please provide an image to analyze.'', []), reqs))"

section \<open>Notebook: image classification
  (\<open>tutorials/multimodal-image-processing/llama-3.2-image-classification.ipynb\<close>)\<close>

text \<open>
  What \<open>json.loads\<close> returns. An object is a Python dict: its items in insertion order.
  A float is written as the real number it denotes.
\<close>

datatype json =
    JNull
  | JBool bool
  | JInt int
  | JFloat real
  | JStr string
  | JArr "json list"
  | JObj "(string \<times> json) list"

text \<open>
  \<open>d[key] = value\<close> on a dict replaces the value of a key that is present, in place, and
  appends the item otherwise. On any other JSON value the assignment raises \<open>TypeError\<close>.
\<close>

fun dict_setitem :: "(string \<times> json) list \<Rightarrow> string \<Rightarrow> json \<Rightarrow> (string \<times> json) list" where
  "dict_setitem [] key v = [(key, v)]"
| "dict_setitem ((k, x) # items) key v =
     (if k = key then (k, v) # items else (k, x) # dict_setitem items key v)"

fun setitem :: "json \<Rightarrow> string \<Rightarrow> json \<Rightarrow> exn + json" where
  "setitem (JObj items) key v = Inr (JObj (dict_setitem items key v))"
| "setitem (JArr xs) key v =
     Inl (Exception ''TypeError'' ''list indices must be integers or slices, not str'')"
| "setitem (JStr s) key v =
     Inl (Exception ''TypeError'' (CHR 0x27 # ''str'' @ CHR 0x27 # '' object does not support item assignment''))"
| "setitem (JInt i) key v =
     Inl (Exception ''TypeError'' (CHR 0x27 # ''int'' @ CHR 0x27 # '' object does not support item assignment''))"
| "setitem (JFloat x) key v =
     Inl (Exception ''TypeError'' (CHR 0x27 # ''float'' @ CHR 0x27 # '' object does not support item assignment''))"
| "setitem (JBool b) key v =
     Inl (Exception ''TypeError'' (CHR 0x27 # ''bool'' @ CHR 0x27 # '' object does not support item assignment''))"
| "setitem JNull key v =
     Inl (Exception ''TypeError'' (CHR 0x27 # ''NoneType'' @ CHR 0x27 # '' object does not support item assignment''))"

text \<open>
  The libraries of this notebook: the endpoint, \<open>json.loads\<close>, reading a file in binary
  mode and \<open>os.listdir\<close>. The module-level \<open>client\<close> and \<open>user_prompt\<close> are arguments.
\<close>

record classifier_services =
  endpoint :: endpoint
  json_loads :: "string \<Rightarrow> exn + json"
  read_file :: "string \<Rightarrow> exn + byte list"
  listdir :: "string \<Rightarrow> exn + string list"

definition encode_image :: "classifier_services \<Rightarrow> string \<Rightarrow> exn + string" where
  "encode_image sv image_path =
     (case read_file sv image_path of
        Inl e \<Rightarrow> Inl e
      | Inr bytes \<Rightarrow> Inr (b64encode bytes))"

definition classification_request :: "string \<Rightarrow> string \<Rightarrow> string \<Rightarrow> completion_request" where
  "classification_request client base64_image user_prompt =
     \<lparr>client_key = client,
      chat_messages =
        [\<lparr>role = ''user'',
          content = Parts [Image_url (data_uri base64_image), Text user_prompt]\<rparr>],
      model = ''llama-3.2-11b-vision-preview'',
      response_format = Some ''json_object''\<rparr>"

definition image_classification ::
  "classifier_services \<Rightarrow> string \<Rightarrow> string \<Rightarrow> string \<Rightarrow> call_log \<Rightarrow> (exn + json) \<times> call_log" where
  "image_classification sv client base64_image user_prompt reqs =
     (case create (endpoint sv) (classification_request client base64_image user_prompt) reqs of
        (Inl e, reqs') \<Rightarrow> (Inl e, reqs')
      | (Inr body, reqs') \<Rightarrow> (json_loads sv body, reqs'))"

text \<open>
  The batch cell. Its loop runs over \<open>sorted(image_files)\<close>; the state it threads is the
  list \<open>image_json_list\<close> and the log of requests. The result is the exception that stopped
  the cell, if any, with the state at that point.
\<close>

definition image_folder :: string where
  "image_folder = ''images/''"

fun batch_loop ::
  "classifier_services \<Rightarrow> string \<Rightarrow> string \<Rightarrow> string list \<Rightarrow> json list \<Rightarrow> call_log
     \<Rightarrow> exn option \<times> json list \<times> call_log" where
  "batch_loop sv client user_prompt [] image_json_list reqs = (None, image_json_list, reqs)"
| "batch_loop sv client user_prompt (image_file # rest) image_json_list reqs =
     (case encode_image sv (image_folder @ image_file) of
        Inl e \<Rightarrow> (Some e, image_json_list, reqs)
      | Inr base64_image \<Rightarrow>
          (case image_classification sv client base64_image user_prompt reqs of
             (Inl e, reqs') \<Rightarrow> (Some e, image_json_list, reqs')
           | (Inr image_json, reqs') \<Rightarrow>
               (case setitem image_json ''image_file'' (JStr image_file) of
                  Inl e \<Rightarrow> (Some e, image_json_list, reqs')
                | Inr image_json' \<Rightarrow>
                    batch_loop sv client user_prompt rest (image_json_list @ [image_json']) reqs')))"





section \<open>Notebook: Llama Guard chatbot
  (\<open>tutorials/llama-guard-safe-chatbot/Llama-Guard-4-Ensuring-Safe-Chatbot.ipynb\<close>)\<close>

definition user_request :: "string \<Rightarrow> string \<Rightarrow> string \<Rightarrow> completion_request" where
  "user_request client model_name user_message =
     \<lparr>client_key = client,
      chat_messages = [\<lparr>role = ''user'', content = Str user_message\<rparr>],
      model = model_name,
      response_format = None\<rparr>"

definition generate_harmful_message ::
  "endpoint \<Rightarrow> string \<Rightarrow> string \<Rightarrow> call_log \<Rightarrow> (exn + string) \<times> call_log" where
  "generate_harmful_message api client unsafe_categories reqs =
     (let user_message =
        ''\<newline>    Below is the MLCommons taxonomy of 13 hazards, as well as an additional category for Code Interpreter Abuse for tool calls use cases.\<newline>    Provide a plausible user prompt to an AI chatbot that violates one of these unsafe categories. \<newline>    Return ONLY the user message with nothing before or after. Do not describe the message or the category that it violates.\<newline>    \<newline>    Unsafe categories:\<newline>    ''
        @ unsafe_categories @ ''\<newline>    ''
      in create api (user_request client ''llama-3.1-8b-instant'' user_message) reqs)"

definition generate_safe_message :: "endpoint \<Rightarrow> string \<Rightarrow> call_log \<Rightarrow> (exn + string) \<times> call_log" where
  "generate_safe_message api client reqs =
     (let user_message =
        ''Return a plausible, short user prompt for an AI chatbot. Return only the prompt with nothing before or after.''
      in create api (user_request client ''llama-3.1-8b-instant'' user_message) reqs)"

definition get_llamaguard_response ::
  "endpoint \<Rightarrow> string \<Rightarrow> string \<Rightarrow> call_log \<Rightarrow> (exn + string) \<times> call_log" where
  "get_llamaguard_response api client user_message reqs =
     create api (user_request client ''meta-llama/Llama-Guard-4-12B'' user_message) reqs"

text \<open>
  \<open>print(a, b, ...)\<close> writes its arguments separated by one space and ends the line.
\<close>

fun print_line :: "string list \<Rightarrow> string" where
  "print_line [] = ''\<newline>''"
| "print_line [a] = a @ ''\<newline>''"
| "print_line (a # b # rest) = a @ '' '' @ print_line (b # rest)"

definition guidelines_message :: string where
  "guidelines_message =
     ''Your message contains content that violates our community guidelines. Please ensure your comments are respectful and safe for all users. Thank you!''"

text \<open>
  The filtering cell. \<open>random_number\<close> is the value of \<open>random.random()\<close>; the state is
  the text printed so far and the log of requests. The result is the exception that
  stopped the cell, if any, with the state at that point.
\<close>

definition filtering_cell ::
  "endpoint \<Rightarrow> string \<Rightarrow> string \<Rightarrow> real \<Rightarrow> string \<Rightarrow> call_log
     \<Rightarrow> exn option \<times> string \<times> call_log" where
  "filtering_cell api client unsafe_categories random_number out reqs =
     (case (if random_number < 0.5
            then generate_harmful_message api client unsafe_categories reqs
            else generate_safe_message api client reqs) of
        (Inl e, reqs1) \<Rightarrow> (Some e, out, reqs1)
      | (Inr user_message, reqs1) \<Rightarrow>
          (case get_llamaguard_response api client user_message reqs1 of
             (Inl e, reqs2) \<Rightarrow> (Some e, out, reqs2)
           | (Inr llamaguard_response, reqs2) \<Rightarrow>
               (let out2 = out @ print_line [''User Message:'', user_message]
                              @ print_line [''Llama Guard 4 Response:'', llamaguard_response]
                in if llamaguard_response = ''safe'' then
                     (case create api (user_request client ''llama-3.1-8b-instant'' user_message) reqs2 of
                        (Inl e, reqs3) \<Rightarrow> (Some e, out2, reqs3)
                      | (Inr c, reqs3) \<Rightarrow>
                          (None, out2 @ print_line [''LLM Response'', take 200 c, ''...''], reqs3))
                   else (None, out2 @ print_line [guidelines_message], reqs2))))"

text \<open>
  The format the specification gives for a classification result: the string \<open>safe\<close>, or
  \<open>unsafe\<close>, a newline and a list of category codes from \<open>S1\<close> to \<open>S14\<close>, separated by
  commas or by newlines. The notebook has no such check; the predicate states the format.
\<close>

definition categories :: "string list" where
  "categories = [''S1'', ''S2'', ''S3'', ''S4'', ''S5'', ''S6'', ''S7'', ''S8'', ''S9'', ''S10'',
                 ''S11'', ''S12'', ''S13'', ''S14'']"

fun split_codes :: "string \<Rightarrow> string \<Rightarrow> string list" where
  "split_codes cur [] = [cur]"
| "split_codes cur (c # cs) =
     (if c = CHR '','' \<or> c = CHR 0x0A then cur # split_codes [] cs else split_codes (cur @ [c]) cs)"

definition valid_classification :: "string \<Rightarrow> bool" where
  "valid_classification s =
     (s = ''safe'' \<or>
      (take 7 s = ''unsafe\<newline>''
       \<and> list_all (\<lambda>code. code \<in> set categories) (split_codes [] (drop 7 s))))"

section \<open>Notebook: mixture of agents (second document of \<open>tutorials/image_moderation.ipynb\<close>)\<close>

subsection \<open>Agents, memory and the model behind them\<close>

text \<open>
  \<open>create_agent\<close> builds a chain \<open>prompt | llm | StrOutputParser()\<close>; what identifies the
  chain is its system prompt, its model and the keyword arguments of the model. The input
  of a chain is the dict \<open>llm_inp\<close>. The conversation memory holds the messages that
  \<open>save_context\<close> appended: a human message and an AI message for each turn.
\<close>

datatype chat_message = HumanMessage string | AIMessage string

record llm_inp =
  input :: string
  messages :: "chat_message list"
  helper_response :: string

record agent =
  system_prompt :: string
  model_name :: string
  llm_kwargs :: "(string \<times> real) list"


record moa_state =
  CHAT_MEMORY :: "chat_message list"
  calls :: "(agent \<times> llm_inp) list"




subsection \<open>\<open>concat_response\<close>\<close>





subsection \<open>The configured pipeline\<close>









subsection \<open>\<open>chat_stream\<close>\<close>











section \<open>Worked inputs\<close>

text \<open>
  Concrete libraries and endpoints on which the theorems below are tried.
\<close>

definition sample_png :: "byte list" where
  "sample_png = [0x89, 0x50, 0x4E, 0x47, 0x0D, 0x0A, 0x1A, 0x0A]"

definition sample_listing :: "string list" where
  "sample_listing = [''pug.png'', ''notes.txt'', ''beagle.png'', ''corgi.png'']"

definition sample_loads :: "string \<Rightarrow> exn + json" where
  "sample_loads body =
     (if body = ''{\"dog_breed\": \"Beagle\"}'' then Inr (JObj [(''dog_breed'', JStr ''Beagle'')])
      else if body = ''{}'' then Inr (JObj [])
      else Inl (Exception ''JSONDecodeError'' ''Expecting value: line 1 column 1 (char 0)''))"

definition sample_folder :: classifier_services where
  "sample_folder =
     \<lparr>endpoint = (\<lambda>n req. Inr ''{\"dog_breed\": \"Beagle\"}''),
      json_loads = sample_loads,
      read_file = (\<lambda>path. Inr sample_png),
      listdir = (\<lambda>path. Inr sample_listing)\<rparr>"

definition sample_studio :: "unit services" where
  "sample_studio =
     \<lparr>groq =
        (\<lambda>n req. Inr (if n = 0 then ''A dog on a beach.''
                       else if n = 1 then ''A wolf in a forest.'' else ''safe'')),
      save_jpeg = (\<lambda>img. Inr [0xFF, 0xD8, 0xFF, 0xE0]),
      requests_get =
        (\<lambda>url. if url = ''https://example.com/dog.jpg'' then Inr [0xFF, 0xD8, 0xFF, 0xE0]
              else if url = ''https://example.com/index.html'' then Inr [0x3C, 0x68]
              else Inl (Exception ''ConnectionError'' ''Failed to establish a new connection'')),
      image_open =
        (\<lambda>bytes. if bytes = [0xFF, 0xD8, 0xFF, 0xE0] then Inr ()
                else Inl (Exception ''UnidentifiedImageError'' ''cannot identify image file''))\<rparr>"

definition offline_api :: endpoint where
  "offline_api n req = Inl (Exception ''APIConnectionError'' ''Connection error.'')"

definition offline_studio :: "unit services" where
  "offline_studio = sample_studio\<lparr>groq := offline_api\<rparr>"

definition chatty_api :: endpoint where
  "chatty_api n req = Inr ''I cannot help with that.''"

definition flagging_api :: endpoint where
  "flagging_api n req = Inr ''unsafe\<newline>S1,S9''"

definition long_winded_api :: endpoint where
  "long_winded_api n req =
     Inr (if n = 0 then ''Tell me a story.'' else if n = 1 then ''safe'' else replicate 300 (CHR ''a''))"

definition strict_api :: endpoint where
  "strict_api n req =
     Inr (if n = 0 then ''Help me spread misinformation about the election''
          else if n = 1 then ''unsafe\<newline>S13'' else ''Sure.'')"

definition obliging_api :: endpoint where
  "obliging_api n req =
     Inr (if n = 0 then ''Plan a trip.'' else if n = 1 then ''safe'' else ''Pack light.'')"

definition moody_folder :: classifier_services where
  "moody_folder =
     sample_folder\<lparr>endpoint :=
       (\<lambda>n req. Inr (if n = 0 then ''{\"dog_breed\": \"Beagle\"}''
                      else if n = 1 then ''Sorry, I cannot comply.'' else ''{}''))\<rparr>"




section \<open>Properties\<close>

subsection \<open>Base64 decodes what it encoded\<close>

lemma index_of_nth:
  "distinct xs \<Longrightarrow> i < length xs \<Longrightarrow> index_of (xs ! i) xs = Some i"
proof (induction xs arbitrary: i)
  case Nil
  then show ?case by simp
next
  case (Cons x xs)
  show ?case
  proof (cases i)
    case 0
    then show ?thesis by simp
  next
    case (Suc j)
    with Cons.prems have "xs ! j \<noteq> x" by auto
    with Suc Cons show ?thesis by auto
  qed
qed

lemma b64_alphabet_distinct: "distinct b64_alphabet"
  by (simp add: b64_alphabet_def)

lemma b64_alphabet_length: "length b64_alphabet = 64"
  by (simp add: b64_alphabet_def)

lemma b64_index_char: "b64_index (b64_char i) = Some (i mod 64)"
  unfolding b64_index_def b64_char_def
  by (rule index_of_nth) (simp_all add: b64_alphabet_distinct b64_alphabet_length)

lemma b64_char_in: "b64_char i \<in> set b64_alphabet"
  unfolding b64_char_def by (rule nth_mem) (simp add: b64_alphabet_length)

lemma b64_char_not_pad: "b64_char i \<noteq> CHR ''=''"
proof -
  have "CHR ''='' \<notin> set b64_alphabet" by (simp add: b64_alphabet_def)
  with b64_char_in [of i] show ?thesis by metis
qed



lemma unat_byte_less: "unat (a :: byte) < 256"
proof -
  have "unat a < 2 ^ LENGTH(8)" by (rule unsigned_less)
  then show ?thesis by simp
qed

lemma byte_of_unat: "word_of_nat (unat (a :: byte)) = a"
  by simp

lemma group3:
  fixes n :: nat
  shows "(n div 262144) mod 64 * 262144 + (n div 4096) mod 64 * 4096 + (n div 64) mod 64 * 64 + n mod 64 = n mod 16777216"
proof -
  have a: "n div 4096 = (n div 64) div 64" by (simp add: div_mult2_eq)
  have b: "n div 262144 = ((n div 64) div 64) div 64" by (simp add: div_mult2_eq)
  have 1: "n mod 16777216 = 64 * (n div 64 mod 262144) + n mod 64"
    using mod_mult2_eq [of n 64 262144] by simp
  have 2: "(n div 64) mod 262144 = 64 * (n div 64 div 64 mod 4096) + n div 64 mod 64"
    using mod_mult2_eq [of "n div 64" 64 4096] by simp
  have 3: "(n div 64 div 64) mod 4096 = 64 * (n div 64 div 64 div 64 mod 64) + n div 64 div 64 mod 64"
    using mod_mult2_eq [of "n div 64 div 64" 64 64] by simp
  show ?thesis unfolding a b 1 2 3 by simp
qed



lemma byte_drop_high:
  fixes x y :: nat
  shows "(word_of_nat (x * 256 + y) :: byte) = word_of_nat y"
proof -
  have "take_bit LENGTH(8) (x * 256 + y) = take_bit LENGTH(8) y"
    by (simp add: take_bit_eq_mod)
  then show ?thesis by (simp only: word_of_nat_eq_iff)
qed

lemma byte_hi:
  fixes a b c :: byte
  shows "word_of_nat ((unat a * 65536 + unat b * 256 + unat c) div 65536) = a"
proof -
  have "unat b * 256 + unat c < 65536"
    using unat_byte_less [of b] unat_byte_less [of c] by simp
  then have "(unat a * 65536 + unat b * 256 + unat c) div 65536 = unat a"
    by simp
  then show ?thesis by simp
qed

lemma byte_mid:
  fixes a b c :: byte
  shows "word_of_nat ((unat a * 65536 + unat b * 256 + unat c) div 256) = b"
proof -
  have "(unat a * 65536 + unat b * 256 + unat c) div 256 = unat a * 256 + unat b"
    using unat_byte_less [of c] by simp
  then have "(word_of_nat ((unat a * 65536 + unat b * 256 + unat c) div 256) :: byte)
      = word_of_nat (unat a * 256 + unat b)"
    by (rule arg_cong)
  also have "\<dots> = word_of_nat (unat b)" by (rule byte_drop_high)
  also have "\<dots> = b" by simp
  finally show ?thesis .
qed

lemma byte_lo:
  fixes a b c :: byte
  shows "word_of_nat (unat a * 65536 + unat b * 256 + unat c) = c"
proof -
  have "unat a * 65536 + unat b * 256 + unat c = (unat a * 256 + unat b) * 256 + unat c"
    by simp
  then have "(word_of_nat (unat a * 65536 + unat b * 256 + unat c) :: byte)
     = word_of_nat ((unat a * 256 + unat b) * 256 + unat c)"
    by (rule arg_cong)
  also have "\<dots> = word_of_nat (unat c)" by (rule byte_drop_high)
  also have "\<dots> = c" by simp
  finally show ?thesis .
qed

lemma group_small:
  fixes a b c :: byte
  shows "unat a * 65536 + unat b * 256 + unat c < 16777216"
  using unat_byte_less [of a] unat_byte_less [of b] unat_byte_less [of c] by simp

lemma regroup:
  fixes a b c :: byte
  defines "n \<equiv> unat a * 65536 + unat b * 256 + unat c"
  shows "(n div 262144) mod 64 * 262144 + (n div 4096) mod 64 * 4096 + (n div 64) mod 64 * 64 + n mod 64 = n"
  using group3 [of n] group_small [of a b c] by (simp add: n_def)



lemma decode_full_group:
  "b64decode (b64_char i0 # b64_char i1 # b64_char i2 # b64_char i3 # cs) =
     map_option
       (\<lambda>bs. word_of_nat ((i0 mod 64 * 262144 + i1 mod 64 * 4096 + i2 mod 64 * 64 + i3 mod 64) div 65536)
           # word_of_nat ((i0 mod 64 * 262144 + i1 mod 64 * 4096 + i2 mod 64 * 64 + i3 mod 64) div 256)
           # word_of_nat (i0 mod 64 * 262144 + i1 mod 64 * 4096 + i2 mod 64 * 64 + i3 mod 64) # bs)
       (b64decode cs)"
  by (simp only: b64decode.simps b64_index_char b64_char_not_pad simp_thms if_False
        prod.case option.case Let_def)


lemma decode_pad1:
  "b64decode [b64_char i0, b64_char i1, b64_char i2, CHR ''=''] =
     Some [word_of_nat ((i0 mod 64 * 262144 + i1 mod 64 * 4096 + i2 mod 64 * 64) div 65536),
           word_of_nat ((i0 mod 64 * 262144 + i1 mod 64 * 4096 + i2 mod 64 * 64) div 256)]"
  by (simp only: b64decode.simps b64_index_char b64_char_not_pad simp_thms if_True if_False
        prod.case option.case Let_def)

lemma decode_pad2:
  "b64decode [b64_char i0, b64_char i1, CHR ''='', CHR ''=''] =
     Some [word_of_nat ((i0 mod 64 * 262144 + i1 mod 64 * 4096) div 65536)]"
  by (simp only: b64decode.simps b64_index_char b64_char_not_pad simp_thms if_True if_False
        prod.case option.case Let_def)


lemma group3_small:
  fixes n :: nat
  assumes "n < 16777216"
  shows "(n div 262144) mod 64 * 262144 + (n div 4096) mod 64 * 4096 + (n div 64) mod 64 * 64 + n mod 64 = n"
  using group3 [of n] assms by simp

lemma group2_small:
  fixes n :: nat
  assumes "n < 16777216" "n mod 64 = 0"
  shows "(n div 262144) mod 64 * 262144 + (n div 4096) mod 64 * 4096 + (n div 64) mod 64 * 64 = n"
  using group3_small [OF assms(1)] unfolding assms(2) by (simp only: add_0_right)

lemma group1_small:
  fixes n :: nat
  assumes "n < 16777216" "n mod 64 = 0" "n div 64 mod 64 = 0"
  shows "(n div 262144) mod 64 * 262144 + (n div 4096) mod 64 * 4096 = n"
  using group2_small [OF assms(1,2)] unfolding assms(3) by (simp only: mult_zero_left add_0_right)

lemma b64encode_decode3:
  fixes a b c :: byte
  shows "b64decode (b64encode (a # b # c # bs)) =
     map_option (\<lambda>bs. a # b # c # bs) (b64decode (b64encode bs))"
proof -
  define n where "n = unat a * 65536 + unat b * 256 + unat c"
  have small: "n < 16777216" unfolding n_def by (rule group_small)
  have enc: "b64encode (a # b # c # bs) =
      b64_char (n div 262144) # b64_char (n div 4096) # b64_char (n div 64) # b64_char n # b64encode bs"
    by (simp add: n_def Let_def)
  have bytes: "word_of_nat (n div 65536) = a" "word_of_nat (n div 256) = b" "word_of_nat n = c"
    unfolding n_def by (rule byte_hi byte_mid byte_lo)+
  show ?thesis
    unfolding enc decode_full_group group3_small [OF small] bytes ..
qed

lemma b64encode_decode2:
  fixes a b :: byte
  shows "b64decode (b64encode [a, b]) = Some [a, b]"
proof -
  define n where "n = unat a * 65536 + unat b * 256"
  have n0: "n = unat a * 65536 + unat b * 256 + unat (0 :: byte)" by (simp add: n_def)
  have small: "n < 16777216" unfolding n0 by (rule group_small)
  have "n = (unat a * 1024 + unat b * 4) * 64" by (simp add: n_def)
  then have m: "n mod 64 = 0" by (simp only: mod_mult_self2_is_0)
  have enc: "b64encode [a, b] =
      [b64_char (n div 262144), b64_char (n div 4096), b64_char (n div 64), CHR ''='']"
    by (simp add: n_def Let_def)
  have bytes: "word_of_nat (n div 65536) = a" "word_of_nat (n div 256) = b"
    unfolding n0 by (rule byte_hi byte_mid)+
  show ?thesis
    unfolding enc decode_pad1 group2_small [OF small m] bytes ..
qed

lemma b64encode_decode1:
  fixes a :: byte
  shows "b64decode (b64encode [a]) = Some [a]"
proof -
  define n where "n = unat a * 65536"
  have n0: "n = unat a * 65536 + unat (0 :: byte) * 256 + unat (0 :: byte)" by (simp add: n_def)
  have small: "n < 16777216" unfolding n0 by (rule group_small)
  have "n = (unat a * 1024) * 64" by (simp add: n_def)
  then have m: "n mod 64 = 0" by (simp only: mod_mult_self2_is_0)
  have "n div 64 = (unat a * 16) * 64" by (simp add: n_def)
  then have m2: "n div 64 mod 64 = 0" by (simp only: mod_mult_self2_is_0)
  have enc: "b64encode [a] =
      [b64_char (n div 262144), b64_char (n div 4096), CHR ''='', CHR ''='']"
    by (simp add: n_def Let_def)
  have bytes: "word_of_nat (n div 65536) = a"
    unfolding n0 by (rule byte_hi)
  show ?thesis
    unfolding enc decode_pad2 group1_small [OF small m m2] bytes ..
qed

lemma b64decode_b64encode: "b64decode (b64encode bs) = Some bs"
proof (induction bs rule: b64encode.induct)
  case 1
  show ?case by simp
next
  case (2 a)
  show ?case by (rule b64encode_decode1)
next
  case (3 a b)
  show ?case by (rule b64encode_decode2)
next
  case (4 a b c bs)
  then show ?case by (simp only: b64encode_decode3 option.map)
qed

subsection \<open>Image encoding\<close>

lemma data_uri_payload_data_uri: "data_uri_payload (data_uri s) = s"
  by (simp add: data_uri_payload_def data_uri_def)

text \<open>
  Claim C8. Whatever bytes are read from a local image file, encoding them into a base64
  data URI and decoding the payload of the URI gives the same bytes back; the same holds for
  the bytes that the moderation notebook's \<open>encode_image\<close> saves to its buffer.
\<close>

theorem encode_image_round_trip:
  "(read_file sv image_path = Inr bytes \<longrightarrow>
      (\<exists>b. encode_image sv image_path = Inr b
           \<and> b64decode (data_uri_payload (data_uri b)) = Some bytes))
   \<and> (save_jpeg sv' img = Inr buffered \<longrightarrow>
      (\<exists>b. encode_image_jpeg sv' img = Inr b
           \<and> b64decode (data_uri_payload (data_uri b)) = Some buffered))"
  by (simp add: encode_image_def encode_image_jpeg_def data_uri_payload_data_uri b64decode_b64encode)

theorem encode_image_round_trip_witness:
  "read_file sample_folder ''images/beagle.png'' = Inr sample_png
   \<and> save_jpeg sample_studio () = Inr [0xFF, 0xD8, 0xFF, 0xE0]
   \<and> encode_image sample_folder ''images/beagle.png'' = Inr ''iVBORw0KGgo=''
   \<and> b64decode (data_uri_payload (data_uri ''iVBORw0KGgo='')) = Some sample_png
   \<and> encode_image_jpeg sample_studio () = Inr ''/9j/4A==''
   \<and> b64decode (data_uri_payload (data_uri ''/9j/4A=='')) = Some [0xFF, 0xD8, 0xFF, 0xE0]"
  using encode_image_round_trip [of sample_folder "''images/beagle.png''" sample_png sample_studio "()" "[0xFF, 0xD8, 0xFF, 0xE0]"]
  by (simp add: sample_folder_def sample_studio_def encode_image_def encode_image_jpeg_def sample_png_def
        b64_char_def b64_alphabet_def)

subsection \<open>The batch cell of the image classifier\<close>




lemma batch_loop_append:
  "batch_loop sv c p (xs @ ys) acc reqs =
     (case batch_loop sv c p xs acc reqs of
        (None, acc', reqs') \<Rightarrow> batch_loop sv c p ys acc' reqs'
      | (Some e, acc', reqs') \<Rightarrow> (Some e, acc', reqs'))"
  by (induction xs arbitrary: acc reqs) (auto split: sum.splits prod.splits option.splits)





text \<open>
  Claim C5. When the endpoint answers, \<open>image_classification\<close> returns whatever value
  \<open>json.loads\<close> parses from the body, with no further check (an object without the
  fields of the schema is returned as it is), and raises the parser's exception when the
  body does not parse. In the batch loop such an exception ends the loop at that file:
  the records collected before it stay, and the files after it are never requested.
\<close>

theorem image_classification_parse_only:
  "(endpoint sv (length reqs) (classification_request client base64_image user_prompt) = Inr body \<longrightarrow>
      (\<forall>v. json_loads sv body = Inr v \<longrightarrow>
         image_classification sv client base64_image user_prompt reqs =
           (Inr v, reqs @ [classification_request client base64_image user_prompt]))
    \<and> (\<forall>e. json_loads sv body = Inl e \<longrightarrow>
         image_classification sv client base64_image user_prompt reqs =
           (Inl e, reqs @ [classification_request client base64_image user_prompt])))
   \<and> (batch_loop sv client user_prompt processed image_json_list reqs = (None, collected, sent) \<longrightarrow>
        read_file sv (image_folder @ image_file) = Inr bytes \<longrightarrow>
        endpoint sv (length sent) (classification_request client (b64encode bytes) user_prompt) = Inr reply \<longrightarrow>
        json_loads sv reply = Inl err \<longrightarrow>
        batch_loop sv client user_prompt (processed @ image_file # remaining) image_json_list reqs =
          (Some err, collected, sent @ [classification_request client (b64encode bytes) user_prompt]))"
  by (simp add: image_classification_def create_def batch_loop_append encode_image_def)

theorem image_classification_parse_only_witness:
  "endpoint moody_folder (length [classification_request ''gsk'' ''iVBORw0KGgo='' ''What breed?'',
                                   classification_request ''gsk'' ''iVBORw0KGgo='' ''What breed?''])
       (classification_request ''gsk'' ''iVBORw0KGgo='' ''What breed?'') = Inr ''{}''
   \<and> json_loads moody_folder ''{}'' = Inr (JObj [])
   \<and> image_classification moody_folder ''gsk'' ''iVBORw0KGgo='' ''What breed?''
         [classification_request ''gsk'' ''iVBORw0KGgo='' ''What breed?'',
          classification_request ''gsk'' ''iVBORw0KGgo='' ''What breed?''] =
       (Inr (JObj []),
        [classification_request ''gsk'' ''iVBORw0KGgo='' ''What breed?'',
         classification_request ''gsk'' ''iVBORw0KGgo='' ''What breed?'',
         classification_request ''gsk'' ''iVBORw0KGgo='' ''What breed?''])
   \<and> endpoint moody_folder (length [classification_request ''gsk'' ''iVBORw0KGgo='' ''What breed?''])
       (classification_request ''gsk'' ''iVBORw0KGgo='' ''What breed?'') = Inr ''Sorry, I cannot comply.''
   \<and> json_loads moody_folder ''Sorry, I cannot comply.'' =
       Inl (Exception ''JSONDecodeError'' ''Expecting value: line 1 column 1 (char 0)'')
   \<and> image_classification moody_folder ''gsk'' ''iVBORw0KGgo='' ''What breed?''
         [classification_request ''gsk'' ''iVBORw0KGgo='' ''What breed?''] =
       (Inl (Exception ''JSONDecodeError'' ''Expecting value: line 1 column 1 (char 0)''),
        [classification_request ''gsk'' ''iVBORw0KGgo='' ''What breed?'',
         classification_request ''gsk'' ''iVBORw0KGgo='' ''What breed?''])
   \<and> batch_loop moody_folder ''gsk'' ''What breed?'' [''beagle.png''] [] [] =
       (None,
        [JObj [(''dog_breed'', JStr ''Beagle''), (''image_file'', JStr ''beagle.png'')]],
        [classification_request ''gsk'' ''iVBORw0KGgo='' ''What breed?''])
   \<and> read_file moody_folder (image_folder @ ''corgi.png'') = Inr sample_png
   \<and> b64encode sample_png = ''iVBORw0KGgo=''
   \<and> batch_loop moody_folder ''gsk'' ''What breed?'' ([''beagle.png''] @ ''corgi.png'' # [''pug.png'']) [] [] =
       (Some (Exception ''JSONDecodeError'' ''Expecting value: line 1 column 1 (char 0)''),
        [JObj [(''dog_breed'', JStr ''Beagle''), (''image_file'', JStr ''beagle.png'')]],
        [classification_request ''gsk'' ''iVBORw0KGgo='' ''What breed?'',
         classification_request ''gsk'' ''iVBORw0KGgo='' ''What breed?''])"
  using
    image_classification_parse_only
      [where sv = moody_folder and client = "''gsk''" and base64_image = "''iVBORw0KGgo=''"
         and user_prompt = "''What breed?''" and body = "''{}''"
         and reqs = "[classification_request ''gsk'' ''iVBORw0KGgo='' ''What breed?'',
                      classification_request ''gsk'' ''iVBORw0KGgo='' ''What breed?'']"
         and processed = "[]" and image_json_list = "[]"
         and collected = "[]"
         and sent = "[classification_request ''gsk'' ''iVBORw0KGgo='' ''What breed?'',
                      classification_request ''gsk'' ''iVBORw0KGgo='' ''What breed?'']"
         and image_file = "''corgi.png''" and bytes = sample_png
         and reply = "''{}''" and remaining = "[]"
         and err = "Exception ''JSONDecodeError'' ''Expecting value: line 1 column 1 (char 0)''"]
    image_classification_parse_only
      [where sv = moody_folder and client = "''gsk''" and base64_image = "''iVBORw0KGgo=''"
         and user_prompt = "''What breed?''" and body = "''Sorry, I cannot comply.''"
         and reqs = "[]"
         and processed = "[''beagle.png'']" and image_json_list = "[]"
         and collected = "[JObj [(''dog_breed'', JStr ''Beagle''), (''image_file'', JStr ''beagle.png'')]]"
         and sent = "[classification_request ''gsk'' ''iVBORw0KGgo='' ''What breed?'']"
         and image_file = "''corgi.png''" and bytes = sample_png
         and reply = "''Sorry, I cannot comply.''" and remaining = "[''pug.png'']"
         and err = "Exception ''JSONDecodeError'' ''Expecting value: line 1 column 1 (char 0)''"]
  by (simp add: moody_folder_def sample_folder_def sample_loads_def encode_image_def
        image_classification_def create_def sample_png_def b64_char_def b64_alphabet_def)

subsection \<open>The moderation wrappers\<close>

text \<open>
  Claim C4, as amended. When the chat-completion call raises, \<open>check_content_safety\<close>
  catches the exception and returns \<open>Error: \<close> followed by its message, so its caller
  gets a string whether the call succeeded or failed; \<open>get_llamaguard_response\<close> has no
  handler, and the exception reaches its caller.
\<close>

theorem wrappers_on_api_error:
  "(groq sv (length reqs) (safety_request description api_key) = Inl e \<longrightarrow>
      check_content_safety sv description api_key reqs =
        (''Error: '' @ exn_str e, reqs @ [safety_request description api_key]))
   \<and> (groq sv (length reqs) (safety_request description api_key) = Inr c \<longrightarrow>
      check_content_safety sv description api_key reqs =
        (c, reqs @ [safety_request description api_key]))
   \<and> (api (length reqs) (user_request client ''meta-llama/Llama-Guard-4-12B'' user_message) = Inl e \<longrightarrow>
      get_llamaguard_response api client user_message reqs =
        (Inl e, reqs @ [user_request client ''meta-llama/Llama-Guard-4-12B'' user_message]))"
  by (simp add: check_content_safety_def get_llamaguard_response_def create_def)

theorem wrappers_on_api_error_witness:
  "groq offline_studio (length []) (safety_request ''A dog.'' ''gsk'') = Inl (Exception ''APIConnectionError'' ''Connection error.'')
   \<and> check_content_safety offline_studio ''A dog.'' ''gsk'' [] =
        (''Error: Connection error.'', [safety_request ''A dog.'' ''gsk''])
   \<and> groq sample_studio (length []) (safety_request ''A dog.'' ''gsk'') = Inr ''A dog on a beach.''
   \<and> check_content_safety sample_studio ''A dog.'' ''gsk'' [] =
        (''A dog on a beach.'', [safety_request ''A dog.'' ''gsk''])
   \<and> offline_api (length []) (user_request ''gsk'' ''meta-llama/Llama-Guard-4-12B'' ''Hello'')
         = Inl (Exception ''APIConnectionError'' ''Connection error.'')
   \<and> get_llamaguard_response offline_api ''gsk'' ''Hello'' [] =
        (Inl (Exception ''APIConnectionError'' ''Connection error.''),
         [user_request ''gsk'' ''meta-llama/Llama-Guard-4-12B'' ''Hello''])"
  using wrappers_on_api_error [of offline_studio "[]" "''A dog.''" "''gsk''" "Exception ''APIConnectionError'' ''Connection error.''" "''x''" offline_api "''gsk''" "''Hello''"]
    wrappers_on_api_error [of sample_studio "[]" "''A dog.''" "''gsk''" "Exception ''APIConnectionError'' ''Connection error.''" "''A dog on a beach.''" offline_api "''gsk''" "''Hello''"]
  by (simp add: offline_studio_def sample_studio_def offline_api_def)

text \<open>
  Against C4 as stated for both wrappers: with the endpoint unreachable,
  \<open>get_llamaguard_response\<close> raises instead of returning a string.
\<close>

theorem get_llamaguard_response_propagates:
  "fst (get_llamaguard_response offline_api ''gsk'' ''Hello'' []) =
     Inl (Exception ''APIConnectionError'' ''Connection error.'')"
  by (simp add: get_llamaguard_response_def create_def offline_api_def)

text \<open>
  Claim C7, as amended. \<open>get_llamaguard_response\<close> returns the content of the model's
  reply unchanged, so its output has the format of a classification result exactly when
  the reply has; the wrapper itself does not restrict the values.
\<close>

theorem get_llamaguard_response_passes_content:
  "api (length reqs) (user_request client ''meta-llama/Llama-Guard-4-12B'' user_message) = Inr c \<Longrightarrow>
     get_llamaguard_response api client user_message reqs =
        (Inr c, reqs @ [user_request client ''meta-llama/Llama-Guard-4-12B'' user_message])
     \<and> (valid_classification c \<longleftrightarrow>
          (\<exists>s. fst (get_llamaguard_response api client user_message reqs) = Inr s \<and> valid_classification s))"
  by (simp add: get_llamaguard_response_def create_def)

theorem get_llamaguard_response_passes_content_witness:
  "flagging_api (length []) (user_request ''gsk'' ''meta-llama/Llama-Guard-4-12B'' ''Hello'') = Inr ''unsafe\<newline>S1,S9''
   \<and> get_llamaguard_response flagging_api ''gsk'' ''Hello'' [] =
        (Inr ''unsafe\<newline>S1,S9'', [user_request ''gsk'' ''meta-llama/Llama-Guard-4-12B'' ''Hello''])
   \<and> valid_classification ''unsafe\<newline>S1,S9''"
  using get_llamaguard_response_passes_content [of flagging_api "[]" "''gsk''" "''Hello''" "''unsafe\<newline>S1,S9''"]
  by (simp add: flagging_api_def valid_classification_def categories_def)

text \<open>
  Against C7 as stated: for a reply that is neither \<open>safe\<close> nor an \<open>unsafe\<close> list,
  the wrapper returns that reply.
\<close>

theorem get_llamaguard_response_unconstrained:
  "fst (get_llamaguard_response chatty_api ''gsk'' ''Hello'' []) = Inr ''I cannot help with that.''
   \<and> \<not> valid_classification ''I cannot help with that.''"
  by (simp add: get_llamaguard_response_def create_def chatty_api_def valid_classification_def)

subsection \<open>The filtering cell of the chatbot\<close>

lemma print_line_1: "print_line [a] = a @ ''\<newline>''" by simp
lemma print_line_2: "print_line [a, b] = a @ '' '' @ b @ ''\<newline>''" by simp
lemma print_line_3: "print_line [a, b, c] = a @ '' '' @ b @ '' '' @ c @ ''\<newline>''" by simp


text \<open>
  Claim C2, as amended. In the filtering cell the downstream chat-completion call is made
  if and only if the moderation response is exactly \<open>safe\<close>: then exactly one such call
  follows the moderation call, and what is printed is \<open>LLM Response\<close>, the first 200
  characters of the content of its reply and \<open>...\<close>; for every other moderation
  response no call follows, and the fixed community-guidelines message is printed verbatim.
\<close>

theorem filtering_cell_gate:
  assumes gen: "(if random_number < 0.5
         then generate_harmful_message api client unsafe_categories reqs
         else generate_safe_message api client reqs) = (Inr user_message, reqs1)"
    and guard: "get_llamaguard_response api client user_message reqs1 = (Inr llamaguard_response, reqs2)"
  shows "(llamaguard_response = ''safe'' \<longrightarrow>
            snd (snd (filtering_cell api client unsafe_categories random_number out reqs)) =
              reqs2 @ [user_request client ''llama-3.1-8b-instant'' user_message]
          \<and> (\<forall>c. api (length reqs2) (user_request client ''llama-3.1-8b-instant'' user_message) = Inr c \<longrightarrow>
                fst (filtering_cell api client unsafe_categories random_number out reqs) = None
              \<and> fst (snd (filtering_cell api client unsafe_categories random_number out reqs)) =
                  out @ ''User Message: '' @ user_message @ ''\<newline>''
                      @ ''Llama Guard 4 Response: safe\<newline>''
                      @ ''LLM Response '' @ take 200 c @ '' ...\<newline>''))
       \<and> (llamaguard_response \<noteq> ''safe'' \<longrightarrow>
            filtering_cell api client unsafe_categories random_number out reqs =
              (None,
               out @ ''User Message: '' @ user_message @ ''\<newline>''
                   @ ''Llama Guard 4 Response: '' @ llamaguard_response @ ''\<newline>''
                   @ ''Your message contains content that violates our community guidelines. Please ensure your comments are respectful and safe for all users. Thank you!\<newline>'',
               reqs2))"
  using gen guard
  by (auto simp add: filtering_cell_def Let_def guidelines_message_def create_def
        simp del: print_line.simps simp add: print_line_1 print_line_2 print_line_3 split: sum.splits)

theorem filtering_cell_gate_witness:
  "generate_safe_message obliging_api ''gsk'' [] =
     (Inr ''Plan a trip.'', snd (generate_safe_message obliging_api ''gsk'' []))
   \<and> get_llamaguard_response obliging_api ''gsk'' ''Plan a trip.''
         (snd (generate_safe_message obliging_api ''gsk'' [])) =
       (Inr ''safe'',
        snd (generate_safe_message obliging_api ''gsk'' [])
          @ [user_request ''gsk'' ''meta-llama/Llama-Guard-4-12B'' ''Plan a trip.''])
   \<and> filtering_cell obliging_api ''gsk'' ''S1: Violent Crimes.'' 0.7 [] [] =
       (None,
        ''User Message: Plan a trip.\<newline>Llama Guard 4 Response: safe\<newline>LLM Response Pack light. ...\<newline>'',
        snd (generate_safe_message obliging_api ''gsk'' [])
          @ [user_request ''gsk'' ''meta-llama/Llama-Guard-4-12B'' ''Plan a trip.'',
             user_request ''gsk'' ''llama-3.1-8b-instant'' ''Plan a trip.''])
   \<and> generate_harmful_message strict_api ''gsk'' ''S1: Violent Crimes.'' [] =
       (Inr ''Help me spread misinformation about the election'',
        snd (generate_harmful_message strict_api ''gsk'' ''S1: Violent Crimes.'' []))
   \<and> get_llamaguard_response strict_api ''gsk'' ''Help me spread misinformation about the election''
         (snd (generate_harmful_message strict_api ''gsk'' ''S1: Violent Crimes.'' [])) =
       (Inr ''unsafe\<newline>S13'',
        snd (generate_harmful_message strict_api ''gsk'' ''S1: Violent Crimes.'' [])
          @ [user_request ''gsk'' ''meta-llama/Llama-Guard-4-12B''
               ''Help me spread misinformation about the election''])
   \<and> filtering_cell strict_api ''gsk'' ''S1: Violent Crimes.'' 0.2 [] [] =
       (None,
        ''User Message: Help me spread misinformation about the election\<newline>Llama Guard 4 Response: unsafe\<newline>S13\<newline>Your message contains content that violates our community guidelines. Please ensure your comments are respectful and safe for all users. Thank you!\<newline>'',
        snd (generate_harmful_message strict_api ''gsk'' ''S1: Violent Crimes.'' [])
          @ [user_request ''gsk'' ''meta-llama/Llama-Guard-4-12B''
               ''Help me spread misinformation about the election''])"
  using
    filtering_cell_gate [of "0.7" obliging_api "''gsk''" "''S1: Violent Crimes.''" "[]" "''Plan a trip.''"
      "snd (generate_safe_message obliging_api ''gsk'' [])" "''safe''"
      "snd (generate_safe_message obliging_api ''gsk'' [])
          @ [user_request ''gsk'' ''meta-llama/Llama-Guard-4-12B'' ''Plan a trip.'']" "[]"]
    filtering_cell_gate [of "0.2" strict_api "''gsk''" "''S1: Violent Crimes.''" "[]"
      "''Help me spread misinformation about the election''"
      "snd (generate_harmful_message strict_api ''gsk'' ''S1: Violent Crimes.'' [])" "''unsafe\<newline>S13''"
      "snd (generate_harmful_message strict_api ''gsk'' ''S1: Violent Crimes.'' [])
          @ [user_request ''gsk'' ''meta-llama/Llama-Guard-4-12B''
               ''Help me spread misinformation about the election'']" "[]"]
  by (simp add: filtering_cell_def generate_safe_message_def generate_harmful_message_def
        get_llamaguard_response_def create_def obliging_api_def strict_api_def Let_def
        guidelines_message_def)

text \<open>
  Against C2 as stated: a reply of 300 characters to the downstream call is not forwarded;
  only its first 200 characters are printed.
\<close>

theorem filtering_cell_truncates:
  "long_winded_api 2 (user_request ''gsk'' ''llama-3.1-8b-instant'' ''Tell me a story.'') =
     Inr (replicate 300 (CHR ''a''))
   \<and> fst (snd (filtering_cell long_winded_api ''gsk'' ''S1: Violent Crimes.'' 0.7 [] [])) =
     ''User Message: Tell me a story.\<newline>Llama Guard 4 Response: safe\<newline>LLM Response ''
       @ replicate 200 (CHR ''a'') @ '' ...\<newline>''
   \<and> \<not> sublist (replicate 300 (CHR ''a''))
         (fst (snd (filtering_cell long_winded_api ''gsk'' ''S1: Violent Crimes.'' 0.7 [] [])))"
proof -
  have out: "fst (snd (filtering_cell long_winded_api ''gsk'' ''S1: Violent Crimes.'' 0.7 [] [])) =
     ''User Message: Tell me a story.\<newline>Llama Guard 4 Response: safe\<newline>LLM Response ''
       @ replicate 200 (CHR ''a'') @ '' ...\<newline>''"
    by (simp add: filtering_cell_def generate_safe_message_def get_llamaguard_response_def
          create_def long_winded_api_def Let_def)
  have "\<not> sublist (replicate 300 (CHR ''a''))
      (''User Message: Tell me a story.\<newline>Llama Guard 4 Response: safe\<newline>LLM Response ''
       @ replicate 200 (CHR ''a'') @ '' ...\<newline>'')"
  proof
    assume "sublist (replicate 300 (CHR ''a''))
      (''User Message: Tell me a story.\<newline>Llama Guard 4 Response: safe\<newline>LLM Response ''
       @ replicate 200 (CHR ''a'') @ '' ...\<newline>'')"
    then have "length (replicate 300 (CHR ''a'')) \<le>
      length (''User Message: Tell me a story.\<newline>Llama Guard 4 Response: safe\<newline>LLM Response ''
       @ replicate 200 (CHR ''a'') @ '' ...\<newline>'')"
      by (rule sublist_length_le)
    then show False by simp
  qed
  with out show ?thesis by (simp add: long_winded_api_def)
qed

subsection \<open>\<open>process_image\<close>\<close>

text \<open>
  Claim C9. With no uploaded image, a URL that cannot be fetched or whose content cannot
  be opened as an image makes \<open>process_image\<close> return the fixed message about an invalid
  URL and an empty safety text; with neither image nor URL it returns the request to
  provide an image. In both cases nothing is raised and no request is sent.
\<close>

theorem process_image_missing_resource:
  "(url \<noteq> [] \<longrightarrow> requests_get sv url = Inl e \<longrightarrow>
      process_image sv None url prompt api_key reqs =
        (Inr (''Invalid image URL. Please provide a direct link to an image.'', ''''), reqs))
   \<and> (url \<noteq> [] \<longrightarrow> requests_get sv url = Inr response_content \<longrightarrow>
        image_open sv response_content = Inl e \<longrightarrow>
      process_image sv None url prompt api_key reqs =
        (Inr (''Invalid image URL. Please provide a direct link to an image.'', ''''), reqs))
   \<and> process_image sv None [] prompt api_key reqs =
        (Inr (''Please provide an image to analyze.'', ''''), reqs)"
  by (simp add: process_image_def invalid_url_message_def)

theorem process_image_missing_resource_witness:
  "requests_get sample_studio ''https://example.com/missing.jpg'' = Inl (Exception ''ConnectionError'' ''Failed to establish a new connection'')
   \<and> process_image sample_studio None ''https://example.com/missing.jpg'' ''Describe the image content.'' ''gsk'' [] =
        (Inr (''Invalid image URL. Please provide a direct link to an image.'', ''''), [])
   \<and> requests_get sample_studio ''https://example.com/index.html'' = Inr [0x3C, 0x68]
   \<and> image_open sample_studio [0x3C, 0x68] = Inl (Exception ''UnidentifiedImageError'' ''cannot identify image file'')
   \<and> process_image sample_studio None ''https://example.com/index.html'' ''Describe the image content.'' ''gsk'' [] =
        (Inr (''Invalid image URL. Please provide a direct link to an image.'', ''''), [])"
  using process_image_missing_resource [of "''https://example.com/missing.jpg''" sample_studio "Exception ''ConnectionError'' ''Failed to establish a new connection''" "''Describe the image content.''" "''gsk''" "[]" "[]"]
    process_image_missing_resource [of "''https://example.com/index.html''" sample_studio "Exception ''UnidentifiedImageError'' ''cannot identify image file''" "''Describe the image content.''" "''gsk''" "[]" "[0x3C, 0x68]"]
  by (simp add: sample_studio_def)

text \<open>
  Claim C10. For an uploaded image, and for a URL that opens as an image,
  \<open>process_image\<close> sends the same analysis request twice: the reply to the first is what
  is displayed, the reply to the second is what the safety check receives. With a model
  that answers the two requests differently, the description displayed is not the one
  checked.
\<close>

theorem process_image_analyzes_twice:
  "(save_jpeg sv img = Inr buffered \<longrightarrow>
      process_image sv (Some img) url prompt api_key reqs =
        (let req = analyze_request (data_uri (b64encode buffered)) prompt api_key;
             shown = content_or_error (groq sv (length reqs) req);
             description = content_or_error (groq sv (length reqs + 1) req);
             safety = content_or_error (groq sv (length reqs + 2) (safety_request description api_key))
         in (Inr (shown, safety), reqs @ [req, req, safety_request description api_key])))
   \<and> (url \<noteq> [] \<longrightarrow> requests_get sv url = Inr response_content \<longrightarrow>
        image_open sv response_content = Inr opened \<longrightarrow>
      process_image sv None url prompt api_key reqs =
        (let req = analyze_request url prompt api_key;
             shown = content_or_error (groq sv (length reqs) req);
             description = content_or_error (groq sv (length reqs + 1) req);
             safety = content_or_error (groq sv (length reqs + 2) (safety_request description api_key))
         in (Inr (shown, safety), reqs @ [req, req, safety_request description api_key])))
   \<and> (\<exists>sv' reqs'. process_image sv' (Some ()) [] ''Describe the image content.'' ''gsk'' [] =
          (Inr (''A dog on a beach.'', ''safe''), reqs')
        \<and> last reqs' = safety_request ''A wolf in a forest.'' ''gsk'')"
proof (intro conjI impI)
  assume "save_jpeg sv img = Inr buffered"
  then show "process_image sv (Some img) url prompt api_key reqs =
        (let req = analyze_request (data_uri (b64encode buffered)) prompt api_key;
             shown = content_or_error (groq sv (length reqs) req);
             description = content_or_error (groq sv (length reqs + 1) req);
             safety = content_or_error (groq sv (length reqs + 2) (safety_request description api_key))
         in (Inr (shown, safety), reqs @ [req, req, safety_request description api_key]))"
    by (simp add: process_image_def analyze_image_def encode_image_jpeg_def check_content_safety_def
          create_def content_or_error_def Let_def split: sum.splits)
next
  assume "url \<noteq> []" "requests_get sv url = Inr response_content"
    "image_open sv response_content = Inr opened"
  then show "process_image sv None url prompt api_key reqs =
        (let req = analyze_request url prompt api_key;
             shown = content_or_error (groq sv (length reqs) req);
             description = content_or_error (groq sv (length reqs + 1) req);
             safety = content_or_error (groq sv (length reqs + 2) (safety_request description api_key))
         in (Inr (shown, safety), reqs @ [req, req, safety_request description api_key]))"
    by (simp add: process_image_def analyze_image_def check_content_safety_def
          create_def content_or_error_def Let_def split: sum.splits)
next
  have "process_image sample_studio (Some ()) [] ''Describe the image content.'' ''gsk'' [] =
          (Inr (''A dog on a beach.'', ''safe''),
           [analyze_request (data_uri ''/9j/4A=='') ''Describe the image content.'' ''gsk'',
            analyze_request (data_uri ''/9j/4A=='') ''Describe the image content.'' ''gsk'',
            safety_request ''A wolf in a forest.'' ''gsk''])"
    by (simp add: process_image_def analyze_image_def encode_image_jpeg_def check_content_safety_def
          create_def sample_studio_def b64_char_def b64_alphabet_def)
  then show "\<exists>sv' reqs'. process_image sv' (Some ()) [] ''Describe the image content.'' ''gsk'' [] =
          (Inr (''A dog on a beach.'', ''safe''), reqs')
        \<and> last reqs' = safety_request ''A wolf in a forest.'' ''gsk''"
    by (intro exI [of _ sample_studio] exI [of _ "[analyze_request (data_uri ''/9j/4A=='') ''Describe the image content.'' ''gsk'',
            analyze_request (data_uri ''/9j/4A=='') ''Describe the image content.'' ''gsk'',
            safety_request ''A wolf in a forest.'' ''gsk'']"]) simp
qed

theorem process_image_analyzes_twice_witness:
  "save_jpeg sample_studio () = Inr [0xFF, 0xD8, 0xFF, 0xE0]
   \<and> process_image sample_studio (Some ()) [] ''Describe the image content.'' ''gsk'' [] =
        (Inr (''A dog on a beach.'', ''safe''),
         [analyze_request (data_uri ''/9j/4A=='') ''Describe the image content.'' ''gsk'',
          analyze_request (data_uri ''/9j/4A=='') ''Describe the image content.'' ''gsk'',
          safety_request ''A wolf in a forest.'' ''gsk''])
   \<and> requests_get sample_studio ''https://example.com/dog.jpg'' = Inr [0xFF, 0xD8, 0xFF, 0xE0]
   \<and> image_open sample_studio [0xFF, 0xD8, 0xFF, 0xE0] = Inr ()
   \<and> process_image sample_studio None ''https://example.com/dog.jpg'' ''Describe the image content.'' ''gsk'' [] =
        (Inr (''A dog on a beach.'', ''safe''),
         [analyze_request ''https://example.com/dog.jpg'' ''Describe the image content.'' ''gsk'',
          analyze_request ''https://example.com/dog.jpg'' ''Describe the image content.'' ''gsk'',
          safety_request ''A wolf in a forest.'' ''gsk''])"
  using process_image_analyzes_twice [of sample_studio "()" "[0xFF, 0xD8, 0xFF, 0xE0]" "[]"
      "''Describe the image content.''" "''gsk''" "[]" "[]" "()"]
    process_image_analyzes_twice [of sample_studio "()" "[0xFF, 0xD8, 0xFF, 0xE0]" "''https://example.com/dog.jpg''"
      "''Describe the image content.''" "''gsk''" "[]" "[0xFF, 0xD8, 0xFF, 0xE0]" "()"]
  by (simp add: sample_studio_def content_or_error_def Let_def b64_char_def b64_alphabet_def)

subsection \<open>The mixture-of-agents turn\<close>






































end
